theory Spec2Isabelle
  imports Complex_Main
begin

section \<open>JavaScript numbers\<close>

text \<open>
  The monitor computes with JavaScript Numbers. Finite values are idealised as reals
  (rounding, overflow and the sign of zero are not modelled). The two places where the
  source divides by a value that may be zero (the percentage deltas of the open-interest
  snapshot) produce \<open>Infinity\<close> or \<open>NaN\<close> in JavaScript; these are kept as values
  of the type \<open>number\<close>, with the comparisons the source applies to them.
\<close>

datatype number = Num real | PosInf | NegInf | NaN

text \<open>\<open>a / b\<close> for finite \<open>a\<close> and \<open>b\<close>.\<close>

definition js_div :: "real \<Rightarrow> real \<Rightarrow> number" where
  "js_div a b =
     (if b \<noteq> 0 then Num (a / b)
      else if 0 < a then PosInf
      else if a < 0 then NegInf
      else NaN)"

text \<open>\<open>x * c\<close> for a finite constant \<open>c\<close>.\<close>

fun js_times :: "number \<Rightarrow> real \<Rightarrow> number" where
  "js_times (Num x) c = Num (x * c)"
| "js_times PosInf c = (if 0 < c then PosInf else if c < 0 then NegInf else NaN)"
| "js_times NegInf c = (if 0 < c then NegInf else if c < 0 then PosInf else NaN)"
| "js_times NaN c = NaN"

fun Math_abs :: "number \<Rightarrow> number" where
  "Math_abs (Num x) = Num \<bar>x\<bar>"
| "Math_abs PosInf = PosInf"
| "Math_abs NegInf = PosInf"
| "Math_abs NaN = NaN"

text \<open>The relational operators against a finite right-hand side; \<open>NaN\<close> compares false.\<close>

fun js_ge :: "number \<Rightarrow> real \<Rightarrow> bool" where
  "js_ge (Num x) c = (c \<le> x)"
| "js_ge PosInf c = True"
| "js_ge NegInf c = False"
| "js_ge NaN c = False"

fun js_gt :: "number \<Rightarrow> real \<Rightarrow> bool" where
  "js_gt (Num x) c = (c < x)"
| "js_gt PosInf c = True"
| "js_gt NegInf c = False"
| "js_gt NaN c = False"

fun js_lt :: "number \<Rightarrow> real \<Rightarrow> bool" where
  "js_lt (Num x) c = (x < c)"
| "js_lt PosInf c = False"
| "js_lt NegInf c = True"
| "js_lt NaN c = False"

text \<open>\<open>ToNumber\<close> on a value that is a number or \<open>null\<close>: \<open>null\<close> converts to \<open>0\<close>.\<close>

fun toNumber :: "number option \<Rightarrow> number" where
  "toNumber None = Num 0"
| "toNumber (Some x) = x"

fun toNumberR :: "real option \<Rightarrow> real" where
  "toNumberR None = 0"
| "toNumberR (Some x) = x"

section \<open>SymbolState: the sliding window of one instrument\<close>

datatype Side = Buy | Sell

record Trade =
  timestamp :: real
  price :: real
  buyVol :: real
  sellVol :: real

record SymbolState =
  symbol :: string
  windowMs :: real
  trades :: "Trade list"
  firstPrice :: "real option"
  lastPrice :: "real option"

definition SymbolState_new :: "string \<Rightarrow> real \<Rightarrow> SymbolState" where
  "SymbolState_new nm windowSeconds =
     \<lparr> symbol = nm, windowMs = windowSeconds * 1000, trades = [],
       firstPrice = None, lastPrice = None \<rparr>"

definition cleanup :: "SymbolState \<Rightarrow> real \<Rightarrow> SymbolState" where
  "cleanup s currentTime =
     (let cutoff = currentTime - windowMs s;
          ts = filter (\<lambda>t. cutoff \<le> timestamp t) (trades s)
      in s \<lparr> trades := ts,
             firstPrice := (case ts of [] \<Rightarrow> None | t # _ \<Rightarrow> Some (price t)) \<rparr>)"

definition addTrade :: "SymbolState \<Rightarrow> real \<Rightarrow> real \<Rightarrow> real \<Rightarrow> bool \<Rightarrow> SymbolState" where
  "addTrade s ts p quantity isBuyerMaker =
     (let volume = p * quantity;
          trade = \<lparr> timestamp = ts, price = p,
                    buyVol = (if isBuyerMaker then 0 else volume),
                    sellVol = (if isBuyerMaker then volume else 0) \<rparr>;
          s1 = s \<lparr> trades := trades s @ [trade], lastPrice := Some p \<rparr>;
          s2 = (if firstPrice s1 = None then s1 \<lparr> firstPrice := Some p \<rparr> else s1)
      in cleanup s2 ts)"

record Stats =
  buyVolume :: real
  sellVolume :: real
  totalVolume :: real
  dominantSide :: Side
  dominance :: real
  priceChange :: real
  duration :: real
  tradeCount :: nat
  stLastPrice :: "real option"

text \<open>The accumulation loop of \<open>getStats\<close>: \<open>(buyVolume, sellVolume)\<close> over the trades.\<close>

fun sumVolumes :: "Trade list \<Rightarrow> real \<times> real \<Rightarrow> real \<times> real" where
  "sumVolumes [] acc = acc"
| "sumVolumes (t # ts) (b, s) = sumVolumes ts (b + buyVol t, s + sellVol t)"

text \<open>
  \<open>getStats\<close> reads no clock and does not prune. \<open>firstPrice\<close> is tested for
  truthiness: \<open>null\<close> and \<open>0\<close> both give a price change of \<open>0\<close>.
\<close>

definition getStats :: "SymbolState \<Rightarrow> Stats option" where
  "getStats s =
     (if trades s = [] then None
      else
        let (buyV, sellV) = sumVolumes (trades s) (0, 0);
            total = buyV + sellV
        in if total = 0 then None
           else
             let buyDominance = (buyV / total) * 100;
                 sellDominance = (sellV / total) * 100
             in Some \<lparr> buyVolume = buyV, sellVolume = sellV, totalVolume = total,
                  dominantSide = (if sellV < buyV then Buy else Sell),
                  dominance = max buyDominance sellDominance,
                  priceChange =
                    (case firstPrice s of
                       None \<Rightarrow> 0
                     | Some fp \<Rightarrow>
                         if fp = 0 then 0
                         else ((toNumberR (lastPrice s) - fp) / fp) * 100),
                  duration = (timestamp (last (trades s)) - timestamp (hd (trades s))) / 1000,
                  tradeCount = length (trades s),
                  stLastPrice = lastPrice s \<rparr>)"

definition reset :: "SymbolState \<Rightarrow> SymbolState" where
  "reset s = s \<lparr> trades := [], firstPrice := None, lastPrice := None \<rparr>"

text \<open>A trade event as the aggregator receives it, and a run of events from a new state.\<close>

record TradeEvent =
  evTimestamp :: real
  evPrice :: real
  evQuantity :: real
  evIsBuyerMaker :: bool

definition addEvent :: "SymbolState \<Rightarrow> TradeEvent \<Rightarrow> SymbolState" where
  "addEvent s e = addTrade s (evTimestamp e) (evPrice e) (evQuantity e) (evIsBuyerMaker e)"

definition addEvents :: "SymbolState \<Rightarrow> TradeEvent list \<Rightarrow> SymbolState" where
  "addEvents s es = foldl addEvent s es"

text \<open>The trade that \<open>addTrade\<close> derives from an event.\<close>

definition tradeOf :: "TradeEvent \<Rightarrow> Trade" where
  "tradeOf e =
     \<lparr> timestamp = evTimestamp e, price = evPrice e,
       buyVol = (if evIsBuyerMaker e then 0 else evPrice e * evQuantity e),
       sellVol = (if evIsBuyerMaker e then evPrice e * evQuantity e else 0) \<rparr>"

text \<open>Every retained trade carries non-negative volumes, one of them positive.\<close>

definition positiveTrades :: "Trade list \<Rightarrow> bool" where
  "positiveTrades xs =
     (\<forall>t\<in>set xs. 0 \<le> buyVol t \<and> 0 \<le> sellVol t \<and> 0 < buyVol t + sellVol t)"

section \<open>CONFIG\<close>

record SymbolConfig =
  minVolumeUSD :: real
  minDominance :: real
  minPriceChange :: real
  cooldownMinutes :: real
  enabled :: bool

record Config =
  SYMBOL_CONFIGS :: "(string \<times> SymbolConfig) list"
  WINDOW_SECONDS :: real
  OI_ENABLED :: bool
  OI_WINDOW_SECONDS :: real
  OI_HISTORY_MINUTES :: real
  OI_FINAL_CHECK_OFFSET_MS :: real
  OI_MIN_DELTA_PERCENT :: real
  OI_MIN_PRICE_CHANGE_PERCENT :: real

definition symbolConfig :: "real \<Rightarrow> real \<Rightarrow> real \<Rightarrow> SymbolConfig" where
  "symbolConfig vol dmn chg =
     \<lparr> minVolumeUSD = vol, minDominance = dmn, minPriceChange = chg,
       cooldownMinutes = 5, enabled = True \<rparr>"

text \<open>The configuration with no environment variable set.\<close>

definition CONFIG :: Config where
  "CONFIG =
     \<lparr> SYMBOL_CONFIGS =
         [(''ADAUSDT'', symbolConfig 1000000 65 0.6),
          (''TAOUSDT'', symbolConfig 1500000 65 0.6),
          (''HYPEUSDT'', symbolConfig 5000000 70 0.8),
          (''PEPEUSDT'', symbolConfig 1000000 65 0.6),
          (''WIFUSDT'', symbolConfig 1500000 65 0.5),
          (''BONKUSDT'', symbolConfig 1000000 65 0.5),
          (''DOGEUSDT'', symbolConfig 5000000 70 0.75),
          (''XRPUSDT'', symbolConfig 5000000 70 1),
          (''UNIUSDT'', symbolConfig 1000000 65 0.5)],
       WINDOW_SECONDS = 180,
       OI_ENABLED = True,
       OI_WINDOW_SECONDS = 300,
       OI_HISTORY_MINUTES = 10,
       OI_FINAL_CHECK_OFFSET_MS = 2000,
       OI_MIN_DELTA_PERCENT = 0.6,
       OI_MIN_PRICE_CHANGE_PERCENT = 0.35 \<rparr>"

text \<open>The lookup of an own key of \<open>SYMBOL_CONFIGS\<close>; \<open>None\<close> is the \<open>null\<close> of a miss.\<close>

definition getSymbolConfig :: "Config \<Rightarrow> string \<Rightarrow> SymbolConfig option" where
  "getSymbolConfig cfg nm = map_of (SYMBOL_CONFIGS cfg) nm"

text \<open>\<open>s.replace(pat, '')\<close>: the first occurrence of a literal pattern is removed.\<close>

fun removeFirst :: "string \<Rightarrow> string \<Rightarrow> string" where
  "removeFirst pat [] = []"
| "removeFirst pat (c # cs) =
     (if take (length pat) (c # cs) = pat then drop (length pat) (c # cs)
      else c # removeFirst pat cs)"

definition binanceToOKX :: "string \<Rightarrow> string" where
  "binanceToOKX binanceSymbol = removeFirst ''USDT'' binanceSymbol @ ''-USDT-SWAP''"

section \<open>OKXOpenInterestTracker: the open-interest history cache\<close>

record OIPoint =
  pt_ts :: real
  pt_oi :: real
  pt_price :: real

record CacheEntry =
  cacheLastOI :: "real option"
  cacheLastPrice :: "real option"
  history :: "OIPoint list"

record Tracker =
  binanceSymbols :: "string list"
  trWindowMs :: real
  historyMs :: real
  oiCache :: "string \<rightharpoonup> CacheEntry"

definition Tracker_new :: "string list \<Rightarrow> real \<Rightarrow> real \<Rightarrow> Tracker" where
  "Tracker_new symbols windowSeconds historyMinutes =
     \<lparr> binanceSymbols = symbols,
       trWindowMs = windowSeconds * 1000,
       historyMs = historyMinutes * 60 * 1000,
       oiCache =
         foldl (\<lambda>m b. m(binanceToOKX b \<mapsto>
                  \<lparr> cacheLastOI = None, cacheLastPrice = None, history = [] \<rparr>))
           Map.empty symbols \<rparr>"

text \<open>\<open>now\<close> is the reading of \<open>Date.now()\<close>.\<close>

definition addToHistory ::
  "Tracker \<Rightarrow> real \<Rightarrow> string \<Rightarrow> real \<Rightarrow> real option \<Rightarrow> real option \<Rightarrow> Tracker" where
  "addToHistory tr now okxSymbol tstamp oiV priceV =
     (case oiCache tr okxSymbol of
        None \<Rightarrow> tr
      | Some cache \<Rightarrow>
          (case (oiV, priceV) of
             (Some v, Some p) \<Rightarrow>
               let h = history cache @ [\<lparr> pt_ts = tstamp, pt_oi = v, pt_price = p \<rparr>];
                   cutoff = now - historyMs tr
               in tr \<lparr> oiCache := (oiCache tr)(okxSymbol \<mapsto>
                          cache \<lparr> history := filter (\<lambda>item. cutoff \<le> pt_ts item) h \<rparr>) \<rparr>
           | _ \<Rightarrow> tr))"

text \<open>
  The handlers receive the first element of the data array after parsing: the value and
  the timestamp, \<open>None\<close> where \<open>parseFloat\<close> or \<open>parseInt\<close> gave \<open>NaN\<close>.
\<close>

definition handleOpenInterest ::
  "Tracker \<Rightarrow> real \<Rightarrow> string \<Rightarrow> (real option \<times> real option) list \<Rightarrow> Tracker" where
  "handleOpenInterest tr now okxSymbol dataArray =
     (case dataArray of
        [] \<Rightarrow> tr
      | (Some v, Some tstamp) # _ \<Rightarrow>
          (case oiCache tr okxSymbol of
             None \<Rightarrow> tr
           | Some cache \<Rightarrow>
               addToHistory
                 (tr \<lparr> oiCache := (oiCache tr)(okxSymbol \<mapsto> cache \<lparr> cacheLastOI := Some v \<rparr>) \<rparr>)
                 now okxSymbol tstamp (Some v) (cacheLastPrice cache))
      | _ \<Rightarrow> tr)"

definition handleMarkPrice ::
  "Tracker \<Rightarrow> real \<Rightarrow> string \<Rightarrow> (real option \<times> real option) list \<Rightarrow> Tracker" where
  "handleMarkPrice tr now okxSymbol dataArray =
     (case dataArray of
        [] \<Rightarrow> tr
      | (Some markPx, Some tstamp) # _ \<Rightarrow>
          (case oiCache tr okxSymbol of
             None \<Rightarrow> tr
           | Some cache \<Rightarrow>
               addToHistory
                 (tr \<lparr> oiCache := (oiCache tr)(okxSymbol \<mapsto> cache \<lparr> cacheLastPrice := Some markPx \<rparr>) \<rparr>)
                 now okxSymbol tstamp (cacheLastOI cache) (Some markPx))
      | _ \<Rightarrow> tr)"

record OIStats =
  oiNow :: real
  oi5mAgo :: "real option"
  oiDeltaPct :: "number option"
  oiDelta :: "real option"
  priceNow :: real
  price5mAgo :: "real option"
  priceDeltaPct :: "number option"
  hasWindowData :: bool
  historyCount :: nat

text \<open>
  The backward loop of \<open>getOIStats\<close>, on the history reversed (newest first): the first
  point at or before \<open>windowAgoTime\<close>.
\<close>

fun scanBack :: "real \<Rightarrow> OIPoint list \<Rightarrow> OIPoint option" where
  "scanBack windowAgoTime [] = None"
| "scanBack windowAgoTime (p # ps) =
     (if pt_ts p \<le> windowAgoTime then Some p else scanBack windowAgoTime ps)"

definition getOIStats :: "Tracker \<Rightarrow> real \<Rightarrow> string \<Rightarrow> OIStats option" where
  "getOIStats tr now binanceSymbol =
     (case oiCache tr (binanceToOKX binanceSymbol) of
        None \<Rightarrow> None
      | Some cache \<Rightarrow>
          if history cache = [] then None
          else
            let windowAgoTime = now - trWindowMs tr;
                latest = last (history cache)
            in (case scanBack windowAgoTime (rev (history cache)) of
                  None \<Rightarrow>
                    Some \<lparr> oiNow = pt_oi latest, oi5mAgo = None, oiDeltaPct = None,
                           oiDelta = None, priceNow = pt_price latest, price5mAgo = None,
                           priceDeltaPct = None, hasWindowData = False,
                           historyCount = length (history cache) \<rparr>
                | Some past \<Rightarrow>
                    let oiD = pt_oi latest - pt_oi past;
                        priceD = pt_price latest - pt_price past
                    in Some \<lparr> oiNow = pt_oi latest, oi5mAgo = Some (pt_oi past),
                              oiDeltaPct = Some (js_times (js_div oiD (pt_oi past)) 100),
                              oiDelta = Some oiD, priceNow = pt_price latest,
                              price5mAgo = Some (pt_price past),
                              priceDeltaPct =
                                Some (js_times (js_div priceD (pt_price past)) 100),
                              hasWindowData = True,
                              historyCount = length (history cache) \<rparr>))"

section \<open>SignalEngine.interpretSignal\<close>

datatype Direction = LONG | SHORT

datatype FlowType = SHORT_SQUEEZE | LONG_LIQUIDATION

datatype Emoji = GreenCircle | RedCircle

datatype Decision = NO_OI_DATA | BASE | BOUNCE | CONTINUATION | INCONCLUSIVE

text \<open>
  The reason is a formatted text in the source. Each constructor stands for one of its
  templates; the digits printed by \<open>toFixed\<close> are not modelled. The template of the
  threshold filter lists which thresholds failed.
\<close>

datatype FailedThreshold = OIDeltaBelowMin | PriceDeltaBelowMin

datatype OIReason =
    OIIgnored "FailedThreshold list"
  | BreakoutDown
  | LongLiquidationBounce
  | BreakoutUp
  | ShortSqueezeBounce
  | NoClearSignal

datatype JSError = TypeError

record Interpretation =
  flowType :: FlowType
  label :: string
  emoji :: Emoji
  direction :: Direction
  flowDirection :: Direction
  finalDirection :: Direction
  oiOverride :: bool
  oiReason :: "OIReason option"
  decision :: Decision
  oiUsed :: bool
  oiDeltaPassed :: bool
  oiPricePassed :: bool
  oiMinDeltaPercent :: real
  oiMinPriceChangePercent :: real

text \<open>
  The record every return statement builds from the base classification: dominant side
  \<open>buy\<close> is \<open>LONG\<close> / short squeeze, anything else \<open>SHORT\<close> / long liquidation.
\<close>

definition result ::
  "Config \<Rightarrow> Stats \<Rightarrow> Direction \<Rightarrow> bool \<Rightarrow> OIReason option \<Rightarrow> Decision \<Rightarrow> bool \<Rightarrow> bool \<Rightarrow> bool
     \<Rightarrow> Interpretation" where
  "result cfg stats final ovr reason dec used deltaPassed pricePassed =
     \<lparr> flowType = (if dominantSide stats = Buy then SHORT_SQUEEZE else LONG_LIQUIDATION),
       label = (if dominantSide stats = Buy then ''SHORT SQUEEZE'' else ''LONG LIQUIDATION''),
       emoji = (if dominantSide stats = Buy then GreenCircle else RedCircle),
       direction = final,
       flowDirection = (if dominantSide stats = Buy then LONG else SHORT),
       finalDirection = final,
       oiOverride = ovr,
       oiReason = reason,
       decision = dec,
       oiUsed = used,
       oiDeltaPassed = deltaPassed,
       oiPricePassed = pricePassed,
       oiMinDeltaPercent = OI_MIN_DELTA_PERCENT cfg,
       oiMinPriceChangePercent = OI_MIN_PRICE_CHANGE_PERCENT cfg \<rparr>"

text \<open>\<open>x.toFixed(2)\<close> throws a \<open>TypeError\<close> when \<open>x\<close> is \<open>null\<close>.\<close>

definition toFixed :: "number option \<Rightarrow> JSError + unit" where
  "toFixed x = (case x of None \<Rightarrow> Inl TypeError | Some _ \<Rightarrow> Inr ())"

text \<open>
  Building the text of a reason calls \<open>toFixed\<close> on the listed deltas; it throws when
  one of them is \<open>null\<close>, and otherwise the function returns the record.
\<close>

definition formatted :: "number option list \<Rightarrow> 'a \<Rightarrow> JSError + 'a" where
  "formatted xs r = (if \<exists>x\<in>set xs. toFixed x = Inl TypeError then Inl TypeError else Inr r)"

text \<open>
  \<open>oiTracker\<close> says whether the engine holds a tracker. \<open>Math.abs\<close> and the relational
  operators convert a \<open>null\<close> delta to \<open>0\<close>.
\<close>

definition interpretSignal ::
  "Config \<Rightarrow> bool \<Rightarrow> Stats \<Rightarrow> OIStats option \<Rightarrow> JSError + Interpretation" where
  "interpretSignal cfg oiTracker stats oiStats =
     (let flowD = (if dominantSide stats = Buy then LONG else SHORT) in
      case oiStats of
        None \<Rightarrow> Inr (result cfg stats flowD False None NO_OI_DATA False False False)
      | Some os \<Rightarrow>
          if \<not> OI_ENABLED cfg \<or> \<not> oiTracker \<or> \<not> hasWindowData os
          then Inr (result cfg stats flowD False None NO_OI_DATA False False False)
          else
            let oiPct = oiDeltaPct os;
                pricePct = priceDeltaPct os;
                minOIDelta = OI_MIN_DELTA_PERCENT cfg;
                minPriceChange = OI_MIN_PRICE_CHANGE_PERCENT cfg;
                deltaPassed = js_ge (Math_abs (toNumber oiPct)) minOIDelta;
                pricePassed = js_ge (Math_abs (toNumber pricePct)) minPriceChange;
                used = (deltaPassed \<and> pricePassed)
            in
              if \<not> used
              then
                let reasons = (if \<not> deltaPassed then [OIDeltaBelowMin] else [])
                            @ (if \<not> pricePassed then [PriceDeltaBelowMin] else [])
                in Inr (result cfg stats flowD False (Some (OIIgnored reasons)) BASE False
                          deltaPassed pricePassed)
              else
                let OI_THRESHOLD = 0.5;
                    PRICE_THRESHOLD = 0.1;
                    priceRising = js_gt (toNumber pricePct) PRICE_THRESHOLD;
                    priceFalling = js_lt (toNumber pricePct) (- PRICE_THRESHOLD);
                    oiRising = js_gt (toNumber oiPct) OI_THRESHOLD;
                    oiFalling = js_lt (toNumber oiPct) (- OI_THRESHOLD)
                in
                  if priceFalling \<and> oiRising
                  then formatted [oiPct]
                         (result cfg stats SHORT (flowD = LONG) (Some BreakoutDown)
                            CONTINUATION used deltaPassed pricePassed)
                  else if priceFalling \<and> oiFalling
                  then formatted []
                         (result cfg stats LONG (flowD = SHORT) (Some LongLiquidationBounce)
                            BOUNCE used deltaPassed pricePassed)
                  else if priceRising \<and> oiRising
                  then formatted [pricePct, oiPct]
                         (result cfg stats LONG (flowD = SHORT) (Some BreakoutUp)
                            CONTINUATION used deltaPassed pricePassed)
                  else if priceRising \<and> oiFalling
                  then formatted [pricePct]
                         (result cfg stats SHORT (flowD = LONG) (Some ShortSqueezeBounce)
                            BOUNCE used deltaPassed pricePassed)
                  else formatted [oiPct, pricePct]
                         (result cfg stats flowD False (Some NoClearSignal)
                            INCONCLUSIVE used deltaPassed pricePassed))"

section \<open>CooldownManager\<close>

definition sideName :: "Side \<Rightarrow> string" where
  "sideName sd = (case sd of Buy \<Rightarrow> ''buy'' | Sell \<Rightarrow> ''sell'')"

text \<open>The key \<open>`${symbol}_${stats.dominantSide}`\<close> of the cooldown and pending maps.\<close>

definition alertKey :: "string \<Rightarrow> Side \<Rightarrow> string" where
  "alertKey nm sd = nm @ ''_'' @ sideName sd"

record CooldownManager =
  lastAlerts :: "string \<rightharpoonup> real"

definition CooldownManager_new :: CooldownManager where
  "CooldownManager_new = \<lparr> lastAlerts = Map.empty \<rparr>"

text \<open>
  \<open>now\<close> is the reading of \<open>Date.now()\<close>. The test \<open>!lastTime\<close> holds for a missing
  entry and for a recorded time of \<open>0\<close>.
\<close>

definition canAlert :: "Config \<Rightarrow> CooldownManager \<Rightarrow> real \<Rightarrow> string \<Rightarrow> Stats \<Rightarrow> bool" where
  "canAlert cfg cm now nm stats =
     (case getSymbolConfig cfg nm of
        None \<Rightarrow> False
      | Some config \<Rightarrow>
          (case lastAlerts cm (alertKey nm (dominantSide stats)) of
             None \<Rightarrow> True
           | Some lastTime \<Rightarrow>
               if lastTime = 0 then True
               else
                 let cooldownMs = cooldownMinutes config * 60 * 1000;
                     elapsed = now - lastTime
                 in cooldownMs \<le> elapsed))"

definition recordAlert :: "CooldownManager \<Rightarrow> real \<Rightarrow> string \<Rightarrow> Stats \<Rightarrow> CooldownManager" where
  "recordAlert cm now nm stats =
     cm \<lparr> lastAlerts := (lastAlerts cm)(alertKey nm (dominantSide stats) \<mapsto> now) \<rparr>"

section \<open>AlertManager: pending alerts and the minute flush\<close>

record AlertData =
  adSymbol :: string
  adStats :: Stats
  adInterpretation :: Interpretation
  adOiStats :: "OIStats option"
  adTimestamp :: real

text \<open>
  A timer of the final check: the delay it was armed with, the alert its callback holds,
  and whether it is still armed (\<open>clearTimeout\<close> disarms it).
\<close>

record Timer =
  delayMs :: real
  timerAlert :: AlertData
  armed :: bool

text \<open>
  \<open>pendingAlerts\<close> is a JavaScript \<open>Map\<close>, iterated in insertion order: an association
  list with distinct keys.
\<close>

record AlertManager =
  pendingAlerts :: "(string \<times> AlertData) list"
  alertCount :: nat
  finalCheckTimers :: "string \<rightharpoonup> Timer"

definition AlertManager_new :: AlertManager where
  "AlertManager_new = \<lparr> pendingAlerts = [], alertCount = 0, finalCheckTimers = Map.empty \<rparr>"

definition mapHas :: "(string \<times> 'v) list \<Rightarrow> string \<Rightarrow> bool" where
  "mapHas m k = (map_of m k \<noteq> None)"

text \<open>\<open>Map.set\<close>: an existing key keeps its place, a new key goes last.\<close>

fun mapSet :: "(string \<times> 'v) list \<Rightarrow> string \<Rightarrow> 'v \<Rightarrow> (string \<times> 'v) list" where
  "mapSet [] k v = [(k, v)]"
| "mapSet ((k', v') # m) k v = (if k' = k then (k, v) # m else (k', v') # mapSet m k v)"

text \<open>\<open>seconds\<close> is the reading of \<open>new Date().getSeconds()\<close>.\<close>

definition scheduleFinalOICheck ::
  "Config \<Rightarrow> AlertManager \<Rightarrow> nat \<Rightarrow> string \<Rightarrow> AlertData \<Rightarrow> AlertManager" where
  "scheduleFinalOICheck cfg am seconds key alertData =
     (let timers1 =
            (case finalCheckTimers am key of
               None \<Rightarrow> finalCheckTimers am
             | Some t \<Rightarrow> (finalCheckTimers am)(key \<mapsto> t \<lparr> armed := False \<rparr>));
          secondsUntilNextMinute = 60 - real seconds;
          msUntilFinalCheck = secondsUntilNextMinute * 1000 - OI_FINAL_CHECK_OFFSET_MS cfg
      in if 0 < msUntilFinalCheck
         then am \<lparr> finalCheckTimers := timers1(key \<mapsto>
                     \<lparr> delayMs = msUntilFinalCheck, timerAlert = alertData, armed = True \<rparr>) \<rparr>
         else am \<lparr> finalCheckTimers := timers1 \<rparr>)"

text \<open>\<open>now\<close> is the reading of \<open>Date.now()\<close>.\<close>

definition sendAlert ::
  "Config \<Rightarrow> AlertManager \<Rightarrow> real \<Rightarrow> nat \<Rightarrow> string \<Rightarrow> Stats \<Rightarrow> Interpretation \<Rightarrow> OIStats option
     \<Rightarrow> AlertManager" where
  "sendAlert cfg am now seconds nm stats interpretation oiStats =
     (let alertData = \<lparr> adSymbol = nm, adStats = stats, adInterpretation = interpretation,
                         adOiStats = oiStats, adTimestamp = now \<rparr>;
          key = alertKey nm (dominantSide stats)
      in if \<not> mapHas (pendingAlerts am) key
         then scheduleFinalOICheck cfg
                (am \<lparr> pendingAlerts := mapSet (pendingAlerts am) key alertData \<rparr>)
                seconds key alertData
         else am)"

text \<open>
  The callback of a final-check timer. The engine it builds holds the manager's tracker,
  so \<open>interpretSignal\<close> runs with a tracker exactly when fresh statistics exist.
\<close>

definition performFinalOICheck ::
  "Config \<Rightarrow> AlertManager \<Rightarrow> Tracker option \<Rightarrow> real \<Rightarrow> string \<Rightarrow> AlertData
     \<Rightarrow> JSError + AlertManager" where
  "performFinalOICheck cfg am oiTracker now key alertData =
     (if \<not> mapHas (pendingAlerts am) key then Inr am
      else
        let freshOIStats =
              (case oiTracker of None \<Rightarrow> None | Some tr \<Rightarrow> getOIStats tr now (adSymbol alertData))
        in (case freshOIStats of
              None \<Rightarrow> Inr (am \<lparr> finalCheckTimers := (finalCheckTimers am)(key := None) \<rparr>)
            | Some fresh \<Rightarrow>
                if \<not> hasWindowData fresh
                then Inr (am \<lparr> finalCheckTimers := (finalCheckTimers am)(key := None) \<rparr>)
                else
                  (case interpretSignal cfg True (adStats alertData) (Some fresh) of
                     Inl e \<Rightarrow> Inl e
                   | Inr updatedInterpretation \<Rightarrow>
                       Inr (am \<lparr> pendingAlerts :=
                                   mapSet (pendingAlerts am) key
                                     (alertData \<lparr> adInterpretation := updatedInterpretation,
                                                  adOiStats := Some fresh \<rparr>),
                                 finalCheckTimers := (finalCheckTimers am)(key := None) \<rparr>))))"

text \<open>
  One send of the flush, and what the flush reports: a delivered alert or a logged
  failure. \<open>telegram\<close> says whether \<open>sendTelegramMessage\<close> resolves for an alert; when
  it rejects, the \<open>catch\<close> block logs the error and the loop goes on.
\<close>

datatype SendOutcome = Delivered string AlertData | Failed string AlertData

text \<open>The loop of \<open>flushPendingAlerts\<close> over the entries, on \<open>(alertCount, timers)\<close>.\<close>

fun flushLoop ::
  "(AlertData \<Rightarrow> bool) \<Rightarrow> (string \<times> AlertData) list \<Rightarrow> nat \<times> (string \<rightharpoonup> Timer)
     \<Rightarrow> (nat \<times> (string \<rightharpoonup> Timer)) \<times> SendOutcome list" where
  "flushLoop telegram [] st = (st, [])"
| "flushLoop telegram ((key, alertData) # rest) (cnt, timers) =
     (if telegram alertData
      then
        let (st', out) = flushLoop telegram rest (cnt + 1, timers(key := None))
        in (st', Delivered key alertData # out)
      else
        let (st', out) = flushLoop telegram rest (cnt, timers)
        in (st', Failed key alertData # out))"

definition flushPendingAlerts ::
  "(AlertData \<Rightarrow> bool) \<Rightarrow> AlertManager \<Rightarrow> AlertManager \<times> SendOutcome list" where
  "flushPendingAlerts telegram am =
     (let ((cnt, timers), out) =
            flushLoop telegram (pendingAlerts am) (alertCount am, finalCheckTimers am)
      in (am \<lparr> pendingAlerts := [], alertCount := cnt, finalCheckTimers := timers \<rparr>, out))"

text \<open>The alerts a flush delivered, in order.\<close>

fun delivered :: "SendOutcome list \<Rightarrow> AlertData list" where
  "delivered [] = []"
| "delivered (Delivered k a # out) = a # delivered out"
| "delivered (Failed k a # out) = delivered out"

text \<open>Every alert a flush tried to send, in order.\<close>

fun attempted :: "SendOutcome list \<Rightarrow> (string \<times> AlertData) list" where
  "attempted [] = []"
| "attempted (Delivered k a # out) = (k, a) # attempted out"
| "attempted (Failed k a # out) = (k, a) # attempted out"

section \<open>Example values\<close>

text \<open>
  Statistics of a window of 50 trades over 60 seconds with 2M USD of volume and 70 percent
  dominance of the given side.
\<close>

definition exampleStats :: "Side \<Rightarrow> Stats" where
  "exampleStats sd =
     \<lparr> buyVolume = (if sd = Buy then 1400000 else 600000),
       sellVolume = (if sd = Buy then 600000 else 1400000),
       totalVolume = 2000000, dominantSide = sd, dominance = 70,
       priceChange = (if sd = Buy then 1 else - 1), duration = 60, tradeCount = 50,
       stLastPrice = Some 1 \<rparr>"

text \<open>A snapshot with window data and the given percentage deltas of OI and price.\<close>

definition exampleSnapshot :: "real \<Rightarrow> real \<Rightarrow> OIStats" where
  "exampleSnapshot oiPct pricePct =
     \<lparr> oiNow = 100 + oiPct, oi5mAgo = Some 100, oiDeltaPct = Some (Num oiPct),
       oiDelta = Some oiPct, priceNow = 100 + pricePct, price5mAgo = Some 100,
       priceDeltaPct = Some (Num pricePct), hasWindowData = True, historyCount = 2 \<rparr>"

text \<open>
  A tracker of one instrument with a 300 s window, holding the points
  \<open>(t = 0, oi = 100, price = 10)\<close> and \<open>(t = 300 s, oi = 110, price = 10.5)\<close>.
\<close>

definition exampleTracker :: Tracker where
  "exampleTracker =
     (Tracker_new [''ADAUSDT''] 300 10)
       \<lparr> oiCache := [''ADA-USDT-SWAP'' \<mapsto>
            \<lparr> cacheLastOI = Some 110, cacheLastPrice = Some 10.5,
              history = [\<lparr> pt_ts = 0, pt_oi = 100, pt_price = 10 \<rparr>,
                         \<lparr> pt_ts = 300000, pt_oi = 110, pt_price = 10.5 \<rparr>] \<rparr>] \<rparr>"

definition exampleAlert :: "string \<Rightarrow> Side \<Rightarrow> real \<Rightarrow> AlertData" where
  "exampleAlert nm sd now =
     \<lparr> adSymbol = nm, adStats = exampleStats sd,
       adInterpretation =
         result CONFIG (exampleStats sd) (if sd = Buy then LONG else SHORT) False None
           NO_OI_DATA False False False,
       adOiStats = None, adTimestamp = now \<rparr>"

text \<open>Two trades one second apart: a taker buy of 6 USD and a taker sell of 2 USD.\<close>

definition exampleEvents :: "TradeEvent list" where
  "exampleEvents =
     [\<lparr> evTimestamp = 1000, evPrice = 2, evQuantity = 3, evIsBuyerMaker = False \<rparr>,
      \<lparr> evTimestamp = 2000, evPrice = 2, evQuantity = 1, evIsBuyerMaker = True \<rparr>]"

text \<open>
  A manager holding two pending alerts for ADAUSDT, admitted in this order: the buy side
  at \<open>t = 1000\<close> and the sell side at \<open>t = 2000\<close>.
\<close>

definition examplePending :: AlertManager where
  "examplePending =
     sendAlert CONFIG
       (sendAlert CONFIG AlertManager_new 1000 10 ''ADAUSDT'' (exampleStats Buy)
          (adInterpretation (exampleAlert ''ADAUSDT'' Buy 1000)) None)
       2000 11 ''ADAUSDT'' (exampleStats Sell)
       (adInterpretation (exampleAlert ''ADAUSDT'' Sell 2000)) None"

section \<open>The sliding window: pruning and statistics\<close>

lemma sumVolumes_sum_list:
  "sumVolumes xs (b, s) = (b + sum_list (map buyVol xs), s + sum_list (map sellVol xs))"
  by (induction xs arbitrary: b s) (simp_all add: add.assoc)

lemma trades_cleanup:
  "trades (cleanup s now) = filter (\<lambda>t. now - windowMs s \<le> timestamp t) (trades s)"
  by (simp add: cleanup_def Let_def)

lemma firstPrice_cleanup:
  "firstPrice (cleanup s now) =
     (case trades (cleanup s now) of [] \<Rightarrow> None | t # _ \<Rightarrow> Some (price t))"
  by (simp add: cleanup_def Let_def)

lemma windowMs_cleanup: "windowMs (cleanup s now) = windowMs s"
  by (simp add: cleanup_def Let_def)

lemma trades_addTrade:
  "trades (addTrade s tm p q m) =
     filter (\<lambda>t. tm - windowMs s \<le> timestamp t)
       (trades s @ [\<lparr> timestamp = tm, price = p,
                      buyVol = (if m then 0 else p * q),
                      sellVol = (if m then p * q else 0) \<rparr>])"
  by (simp add: addTrade_def cleanup_def Let_def)

lemma firstPrice_addTrade:
  "firstPrice (addTrade s tm p q m) =
     (case trades (addTrade s tm p q m) of [] \<Rightarrow> None | t # _ \<Rightarrow> Some (price t))"
  by (simp add: addTrade_def cleanup_def Let_def)

lemma getStats_no_trades: "trades s = [] \<Longrightarrow> getStats s = None"
  by (simp add: getStats_def)

text \<open>
  Claim C4, as amended. The window is pruned only when a trade is added: \<open>addTrade\<close> runs
  \<open>cleanup\<close> at the trade's timestamp, after which every retained trade is at most one
  window older than that timestamp and \<open>firstPrice\<close> is the price of the oldest retained
  trade (\<open>null\<close> when none is left). A \<open>cleanup\<close> at a time more than one window after
  every trade empties the window, and \<open>getStats\<close> then returns \<open>null\<close>. \<open>getStats\<close>
  itself reads no clock and prunes nothing.
\<close>

theorem cleanup_prunes_window:
  "(\<forall>t\<in>set (trades (addTrade s tm p q m)). tm - windowMs s \<le> timestamp t)
 \<and> firstPrice (addTrade s tm p q m) =
     (case trades (addTrade s tm p q m) of [] \<Rightarrow> None | t # _ \<Rightarrow> Some (price t))
 \<and> (\<forall>t\<in>set (trades (cleanup s now)). now - windowMs s \<le> timestamp t)
 \<and> ((\<forall>t\<in>set (trades s). timestamp t < now - windowMs s) \<longrightarrow>
       trades (cleanup s now) = [] \<and> firstPrice (cleanup s now) = None
     \<and> getStats (cleanup s now) = None)"
proof -
  have a: "\<forall>t\<in>set (trades (addTrade s tm p q m)). tm - windowMs s \<le> timestamp t"
    unfolding trades_addTrade by simp
  have b: "firstPrice (addTrade s tm p q m) =
     (case trades (addTrade s tm p q m) of [] \<Rightarrow> None | t # _ \<Rightarrow> Some (price t))"
    by (rule firstPrice_addTrade)
  have c: "\<forall>t\<in>set (trades (cleanup s now)). now - windowMs s \<le> timestamp t"
    by (simp add: trades_cleanup)
  have d: "(\<forall>t\<in>set (trades s). timestamp t < now - windowMs s) \<longrightarrow>
       trades (cleanup s now) = [] \<and> firstPrice (cleanup s now) = None
     \<and> getStats (cleanup s now) = None"
  proof
    assume old: "\<forall>t\<in>set (trades s). timestamp t < now - windowMs s"
    then have e: "trades (cleanup s now) = []"
      by (auto simp add: trades_cleanup filter_empty_conv)
    then show "trades (cleanup s now) = [] \<and> firstPrice (cleanup s now) = None
        \<and> getStats (cleanup s now) = None"
      by (simp add: firstPrice_cleanup getStats_no_trades)
  qed
  from a b c d show ?thesis by blast
qed

lemma exampleWindow_state:
  "addTrade (SymbolState_new ''ADAUSDT'' 180) 1000 2 3 False =
     \<lparr> symbol = ''ADAUSDT'', windowMs = 180000,
       trades = [\<lparr> timestamp = 1000, price = 2, buyVol = 6, sellVol = 0 \<rparr>],
       firstPrice = Some 2, lastPrice = Some 2 \<rparr>"
  by (simp add: addTrade_def cleanup_def SymbolState_new_def Let_def)

text \<open>
  One trade at \<open>t = 1 s\<close> in a 180 s window; \<open>cleanup\<close> at \<open>t = 200 s\<close> empties the
  window.
\<close>

theorem cleanup_prunes_window_witness:
  "getStats (addTrade (SymbolState_new ''ADAUSDT'' 180) 1000 2 3 False) \<noteq> None
 \<and> trades (cleanup (addTrade (SymbolState_new ''ADAUSDT'' 180) 1000 2 3 False) 200000) = []
 \<and> getStats (cleanup (addTrade (SymbolState_new ''ADAUSDT'' 180) 1000 2 3 False) 200000) = None"
  using cleanup_prunes_window
    [of "addTrade (SymbolState_new ''ADAUSDT'' 180) 1000 2 3 False" 1000 2 3 False 200000]
  by (simp add: exampleWindow_state getStats_def)

text \<open>
  Claim C4 as the specification states it fails. The only trade has timestamp \<open>1 s\<close> and
  the window is 180 s long; with the clock at \<open>999 s\<close> and no trade added since, the
  state is the one \<open>addTrade\<close> left, and \<open>getStats\<close> still returns the statistics of
  that trade.
\<close>

theorem getStats_stale_window_counterexample:
  "map timestamp (trades (addTrade (SymbolState_new ''ADAUSDT'' 180) 1000 2 3 False)) = [1000]
 \<and> 1000 + windowMs (addTrade (SymbolState_new ''ADAUSDT'' 180) 1000 2 3 False) < 999000
 \<and> getStats (addTrade (SymbolState_new ''ADAUSDT'' 180) 1000 2 3 False) =
     Some \<lparr> buyVolume = 6, sellVolume = 0, totalVolume = 6, dominantSide = Buy,
            dominance = 100, priceChange = 0, duration = 0, tradeCount = 1,
            stLastPrice = Some 2 \<rparr>"
  by (simp add: exampleWindow_state getStats_def)

lemma positiveTrades_buy: "positiveTrades xs \<Longrightarrow> 0 \<le> sum_list (map buyVol xs)"
  by (induction xs) (simp_all add: positiveTrades_def)

lemma positiveTrades_sell: "positiveTrades xs \<Longrightarrow> 0 \<le> sum_list (map sellVol xs)"
  by (induction xs) (simp_all add: positiveTrades_def)

lemma positiveTrades_total:
  assumes "positiveTrades xs" and "xs \<noteq> []"
  shows "0 < sum_list (map buyVol xs) + sum_list (map sellVol xs)"
proof (cases xs)
  case Nil
  with assms(2) show ?thesis by simp
next
  case (Cons t xs')
  have p: "positiveTrades xs'" using assms(1) Cons by (simp add: positiveTrades_def)
  have "0 < buyVol t + sellVol t" using assms(1) Cons by (simp add: positiveTrades_def)
  moreover have "0 \<le> sum_list (map buyVol xs')" "0 \<le> sum_list (map sellVol xs')"
    using positiveTrades_buy[OF p] positiveTrades_sell[OF p] by simp_all
  ultimately show ?thesis using Cons by simp
qed

lemma positiveTrades_addTrade:
  "positiveTrades (trades s) \<Longrightarrow> 0 < p \<Longrightarrow> 0 < q
     \<Longrightarrow> positiveTrades (trades (addTrade s tm p q m))"
  by (auto simp add: addTrade_def cleanup_def positiveTrades_def Let_def)

lemma trades_addTrade_nonempty: "0 \<le> windowMs s \<Longrightarrow> trades (addTrade s tm p q m) \<noteq> []"
  by (auto simp add: addTrade_def cleanup_def Let_def filter_empty_conv)

lemma windowMs_addTrade: "windowMs (addTrade s tm p q m) = windowMs s"
  by (simp add: addTrade_def cleanup_def Let_def)

lemma positiveTrades_addEvents:
  assumes "\<forall>e\<in>set es. 0 < evPrice e \<and> 0 < evQuantity e" and "positiveTrades (trades s)"
  shows "positiveTrades (trades (addEvents s es))"
  using assms
proof (induction es arbitrary: s)
  case Nil
  then show ?case by (simp add: addEvents_def)
next
  case (Cons e es)
  have "positiveTrades (trades (addEvent s e))"
    unfolding addEvent_def using Cons.prems by (intro positiveTrades_addTrade) simp_all
  then have "positiveTrades (trades (addEvents (addEvent s e) es))"
    using Cons.IH Cons.prems(1) by simp
  then show ?case by (simp add: addEvents_def)
qed

lemma windowMs_addEvents: "windowMs (addEvents s es) = windowMs s"
  by (induction es arbitrary: s) (simp_all add: addEvents_def addEvent_def windowMs_addTrade)

lemma addEvents_snoc: "addEvents s (es @ [e]) = addEvent (addEvents s es) e"
  by (simp add: addEvents_def)

lemma trades_addEvents_nonempty:
  assumes "es \<noteq> []" and "0 \<le> windowMs s"
  shows "trades (addEvents s es) \<noteq> []"
proof -
  from assms(1) obtain es' e where es: "es = es' @ [e]"
    by (cases es rule: rev_cases) auto
  have "0 \<le> windowMs (addEvents s es')" using assms(2) by (simp add: windowMs_addEvents)
  then show ?thesis unfolding es addEvents_snoc addEvent_def by (rule trades_addTrade_nonempty)
qed

lemma getStats_nonempty_positive:
  assumes "positiveTrades (trades s)" and "trades s \<noteq> []"
  shows "getStats s \<noteq> None"
proof -
  have "0 < sum_list (map buyVol (trades s)) + sum_list (map sellVol (trades s))"
    by (rule positiveTrades_total[OF assms])
  then show ?thesis using assms(2)
    by (simp add: getStats_def sumVolumes_sum_list Let_def)
qed

lemma dominance_arith:
  fixes b s :: real
  assumes "0 \<le> b" and "0 \<le> s" and "0 < b + s"
  shows "max (b / (b + s) * 100) (s / (b + s) * 100) = max b s / (b + s) * 100"
    and "50 \<le> max b s / (b + s) * 100"
    and "max b s / (b + s) * 100 \<le> 100"
proof -
  define r where "r = max b s / (b + s)"
  show "max (b / (b + s) * 100) (s / (b + s) * 100) = max b s / (b + s) * 100"
    using assms(3) by (simp add: max_def divide_le_cancel)
  have "(b + s) * (1 / 2) \<le> max b s" by (simp add: max_def)
  then have "1 / 2 \<le> r"
    unfolding r_def using assms(3) by (simp only: pos_le_divide_eq mult.commute)
  then have "50 \<le> r * 100" by simp
  then show "50 \<le> max b s / (b + s) * 100" unfolding r_def .
  have "max b s \<le> 1 * (b + s)" using assms(1,2) by (simp add: max_def)
  then have "r \<le> 1" unfolding r_def using assms(3) by (simp only: pos_divide_le_eq)
  then have "r * 100 \<le> 100" by simp
  then show "max b s / (b + s) * 100 \<le> 100" unfolding r_def .
qed

lemma getStats_props:
  assumes "positiveTrades (trades s)" and "getStats s = Some st"
  shows "buyVolume st + sellVolume st = totalVolume st"
    and "dominance st = max (buyVolume st) (sellVolume st) / totalVolume st * 100"
    and "50 \<le> dominance st" and "dominance st \<le> 100"
    and "dominantSide st = (if sellVolume st < buyVolume st then Buy else Sell)"
proof -
  let ?b = "sum_list (map buyVol (trades s))" and ?s = "sum_list (map sellVol (trades s))"
  from assms(2) have ne: "trades s \<noteq> []" by (auto simp: getStats_def split: if_splits)
  have b0: "0 \<le> ?b" and s0: "0 \<le> ?s" and pos: "0 < ?b + ?s"
    using positiveTrades_buy[OF assms(1)] positiveTrades_sell[OF assms(1)]
      positiveTrades_total[OF assms(1) ne] by simp_all
  from assms(2) ne pos
  have st: "buyVolume st = ?b" "sellVolume st = ?s" "totalVolume st = ?b + ?s"
      "dominance st = max (?b / (?b + ?s) * 100) (?s / (?b + ?s) * 100)"
      "dominantSide st = (if ?s < ?b then Buy else Sell)"
    by (auto simp: getStats_def sumVolumes_sum_list Let_def split: if_splits)
  note ar = dominance_arith[OF b0 s0 pos]
  show "buyVolume st + sellVolume st = totalVolume st" using st by simp
  show "dominantSide st = (if sellVolume st < buyVolume st then Buy else Sell)"
    using st by simp
  show "dominance st = max (buyVolume st) (sellVolume st) / totalVolume st * 100"
    unfolding st ar(1) ..
  show "50 \<le> dominance st" unfolding st ar(1) by (rule ar(2))
  show "dominance st \<le> 100" unfolding st ar(1) by (rule ar(3))
qed

lemma trades_addEvent:
  "trades (addEvent s e) =
     filter (\<lambda>t. evTimestamp e - windowMs s \<le> timestamp t) (trades s @ [tradeOf e])"
  by (simp add: addEvent_def trades_addTrade tradeOf_def)

lemma addEvents_one_window_gen:
  assumes "trades s = map tradeOf es0"
    and "\<forall>e\<in>set (es0 @ es). \<forall>e'\<in>set (es0 @ es).
           evTimestamp e' - windowMs s \<le> evTimestamp e"
  shows "trades (addEvents s es) = map tradeOf (es0 @ es)"
  using assms
proof (induction es arbitrary: s es0)
  case Nil
  then show ?case by (simp add: addEvents_def)
next
  case (Cons e es)
  have keep: "\<forall>t\<in>set (trades s @ [tradeOf e]). evTimestamp e - windowMs s \<le> timestamp t"
    using Cons.prems by (auto simp add: tradeOf_def)
  have t1: "trades (addEvent s e) = map tradeOf (es0 @ [e])"
    unfolding trades_addEvent using keep Cons.prems(1) by (simp add: filter_id_conv)
  have w: "windowMs (addEvent s e) = windowMs s"
    by (simp add: addEvent_def windowMs_addTrade)
  have "trades (addEvents (addEvent s e) es) = map tradeOf ((es0 @ [e]) @ es)"
    by (rule Cons.IH[OF t1]) (use Cons.prems(2) w in simp)
  then show ?case by (simp add: addEvents_def)
qed

text \<open>Events that all lie within one window of each other are all retained.\<close>

lemma addEvents_one_window:
  assumes "\<forall>e\<in>set es. \<forall>e'\<in>set es. evTimestamp e' - w * 1000 \<le> evTimestamp e"
  shows "trades (addEvents (SymbolState_new nm w) es) = map tradeOf es"
  using addEvents_one_window_gen[of "SymbolState_new nm w" "[]" es] assms
  by (simp add: SymbolState_new_def)

lemma getStats_sums:
  assumes "getStats s = Some st"
  shows "buyVolume st = sum_list (map buyVol (trades s))"
    and "sellVolume st = sum_list (map sellVol (trades s))"
    and "tradeCount st = length (trades s)"
  using assms
  by (auto simp add: getStats_def sumVolumes_sum_list Let_def split: if_splits)

text \<open>
  Claim C5. For every sequence of trade events (positive price and quantity) added to a
  new window, \<open>getStats\<close> returns \<open>null\<close> when no trade is retained, returns statistics
  when at least one event was added (the window length not negative), and the statistics
  satisfy \<open>buyVolume + sellVolume = totalVolume\<close>,
  \<open>dominance = max(buyVolume, sellVolume) / totalVolume * 100\<close> with
  \<open>50 \<le> dominance \<le> 100\<close>, and \<open>dominantSide\<close> is \<open>buy\<close> when
  \<open>buyVolume > sellVolume\<close> and \<open>sell\<close> otherwise, a tie included. When the events
  all lie within one window of each other, none is pruned: the volumes are the sums over
  the whole sequence.
\<close>

theorem getStats_volumes_and_dominance:
  assumes "\<forall>e\<in>set es. 0 < evPrice e \<and> 0 < evQuantity e"
  shows "(trades (addEvents (SymbolState_new nm w) es) = []
            \<longrightarrow> getStats (addEvents (SymbolState_new nm w) es) = None)
       \<and> (es \<noteq> [] \<and> 0 \<le> w \<longrightarrow> getStats (addEvents (SymbolState_new nm w) es) \<noteq> None)
       \<and> (\<forall>st. getStats (addEvents (SymbolState_new nm w) es) = Some st \<longrightarrow>
              buyVolume st + sellVolume st = totalVolume st
            \<and> dominance st = max (buyVolume st) (sellVolume st) / totalVolume st * 100
            \<and> 50 \<le> dominance st \<and> dominance st \<le> 100
            \<and> dominantSide st = (if sellVolume st < buyVolume st then Buy else Sell)
            \<and> ((\<forall>e\<in>set es. \<forall>e'\<in>set es. evTimestamp e' - w * 1000 \<le> evTimestamp e) \<longrightarrow>
                  buyVolume st = sum_list (map (\<lambda>e. buyVol (tradeOf e)) es)
                \<and> sellVolume st = sum_list (map (\<lambda>e. sellVol (tradeOf e)) es)
                \<and> tradeCount st = length es))"
proof -
  let ?s = "addEvents (SymbolState_new nm w) es"
  have pos: "positiveTrades (trades ?s)"
    by (rule positiveTrades_addEvents[OF assms]) (simp add: positiveTrades_def SymbolState_new_def)
  have 1: "trades ?s = [] \<longrightarrow> getStats ?s = None" by (simp add: getStats_def)
  have 2: "es \<noteq> [] \<and> 0 \<le> w \<longrightarrow> getStats ?s \<noteq> None"
  proof
    assume h: "es \<noteq> [] \<and> 0 \<le> w"
    then have "0 \<le> windowMs (SymbolState_new nm w)" by (simp add: SymbolState_new_def)
    with h have "trades ?s \<noteq> []" by (intro trades_addEvents_nonempty) simp_all
    with pos show "getStats ?s \<noteq> None" by (rule getStats_nonempty_positive)
  qed
  have 3: "buyVolume st + sellVolume st = totalVolume st
            \<and> dominance st = max (buyVolume st) (sellVolume st) / totalVolume st * 100
            \<and> 50 \<le> dominance st \<and> dominance st \<le> 100
            \<and> dominantSide st = (if sellVolume st < buyVolume st then Buy else Sell)"
    if "getStats ?s = Some st" for st
    using getStats_props[OF pos that] by blast
  have 4: "buyVolume st = sum_list (map (\<lambda>e. buyVol (tradeOf e)) es)
                \<and> sellVolume st = sum_list (map (\<lambda>e. sellVol (tradeOf e)) es)
                \<and> tradeCount st = length es"
    if "getStats ?s = Some st"
      and "\<forall>e\<in>set es. \<forall>e'\<in>set es. evTimestamp e' - w * 1000 \<le> evTimestamp e" for st
    using getStats_sums[OF that(1)] addEvents_one_window[OF that(2), of nm]
    by (simp add: comp_def)
  from 1 2 3 4 show ?thesis by blast
qed

lemma exampleEvents_stats:
  "getStats (addEvents (SymbolState_new ''ADAUSDT'' 180) exampleEvents) =
     Some \<lparr> buyVolume = 6, sellVolume = 2, totalVolume = 8, dominantSide = Buy,
            dominance = 75, priceChange = 0, duration = 1, tradeCount = 2,
            stLastPrice = Some 2 \<rparr>"
  by (simp add: exampleEvents_def addEvents_def addEvent_def addTrade_def cleanup_def
      SymbolState_new_def getStats_def Let_def)

text \<open>A taker buy of 6 USD and a taker sell of 2 USD: 75 percent buy dominance.\<close>

theorem getStats_volumes_and_dominance_witness:
  "\<exists>st. getStats (addEvents (SymbolState_new ''ADAUSDT'' 180) exampleEvents) = Some st
      \<and> buyVolume st = 6 \<and> sellVolume st = 2 \<and> totalVolume st = 8
      \<and> buyVolume st + sellVolume st = totalVolume st
      \<and> dominance st = max (buyVolume st) (sellVolume st) / totalVolume st * 100
      \<and> dominance st = 75 \<and> 50 \<le> dominance st \<and> dominance st \<le> 100
      \<and> dominantSide st = Buy"
proof -
  have h: "\<forall>e\<in>set exampleEvents. 0 < evPrice e \<and> 0 < evQuantity e"
    by (simp add: exampleEvents_def)
  show ?thesis
    using getStats_volumes_and_dominance [OF h, of "''ADAUSDT''" 180]
    by (simp add: exampleEvents_stats)
qed

section \<open>The signal interpreter\<close>

lemma formatted_Some: "\<forall>x\<in>set xs. x \<noteq> None \<Longrightarrow> formatted xs r = Inr r"
  by (auto simp: formatted_def toFixed_def split: option.splits)

lemma CONFIG_fields:
  "OI_ENABLED CONFIG" "OI_MIN_DELTA_PERCENT CONFIG = 0.6"
  "OI_MIN_PRICE_CHANGE_PERCENT CONFIG = 0.35"
  by (simp_all add: CONFIG_def)

lemma exampleSnapshot_fields:
  "hasWindowData (exampleSnapshot a b)"
  "oiDeltaPct (exampleSnapshot a b) = Some (Num a)"
  "priceDeltaPct (exampleSnapshot a b) = Some (Num b)"
  by (simp_all add: exampleSnapshot_def)

lemma exampleStats_side: "dominantSide (exampleStats sd) = sd"
  by (simp add: exampleStats_def)

text \<open>
  Claim C1. With OI enabled, a tracker present and a snapshot with window data whose
  deltas pass the threshold gate, \<open>interpretSignal\<close> returns with \<open>oiUsed\<close> true and
  decides by the quadrant table: price falling (below \<open>-0.1\<close>) and OI rising (above
  \<open>0.5\<close>) gives \<open>SHORT\<close> / \<open>CONTINUATION\<close>; price falling and OI falling gives
  \<open>LONG\<close> / \<open>BOUNCE\<close>; price rising and OI rising gives \<open>LONG\<close> /
  \<open>CONTINUATION\<close>; price rising and OI falling gives \<open>SHORT\<close> / \<open>BOUNCE\<close>; when
  the price or the OI movement is not significant (so also when neither is) the base
  direction is kept with \<open>INCONCLUSIVE\<close>; and \<open>oiOverride\<close> holds exactly when the
  final direction differs from the base direction.
\<close>

theorem interpretSignal_quadrant_table:
  assumes "OI_ENABLED cfg" and "hasWindowData os"
    and "oiDeltaPct os = Some oiPct" and "priceDeltaPct os = Some pricePct"
    and "js_ge (Math_abs oiPct) (OI_MIN_DELTA_PERCENT cfg)"
    and "js_ge (Math_abs pricePct) (OI_MIN_PRICE_CHANGE_PERCENT cfg)"
  shows "\<exists>r. interpretSignal cfg True stats (Some os) = Inr r
     \<and> oiUsed r
     \<and> flowDirection r = (if dominantSide stats = Buy then LONG else SHORT)
     \<and> (js_lt pricePct (- 0.1) \<and> js_gt oiPct 0.5
           \<longrightarrow> finalDirection r = SHORT \<and> decision r = CONTINUATION)
     \<and> (js_lt pricePct (- 0.1) \<and> js_lt oiPct (- 0.5)
           \<longrightarrow> finalDirection r = LONG \<and> decision r = BOUNCE)
     \<and> (js_gt pricePct 0.1 \<and> js_gt oiPct 0.5
           \<longrightarrow> finalDirection r = LONG \<and> decision r = CONTINUATION)
     \<and> (js_gt pricePct 0.1 \<and> js_lt oiPct (- 0.5)
           \<longrightarrow> finalDirection r = SHORT \<and> decision r = BOUNCE)
     \<and> (\<not> (js_lt pricePct (- 0.1) \<or> js_gt pricePct 0.1)
          \<or> \<not> (js_lt oiPct (- 0.5) \<or> js_gt oiPct 0.5)
           \<longrightarrow> finalDirection r = flowDirection r \<and> decision r = INCONCLUSIVE)
     \<and> (oiOverride r \<longleftrightarrow> finalDirection r \<noteq> flowDirection r)"
proof -
  have excl: "\<not> (js_lt pricePct (- 0.1) \<and> js_gt pricePct 0.1)"
    "\<not> (js_lt oiPct (- 0.5) \<and> js_gt oiPct 0.5)"
    by (cases pricePct; simp) (cases oiPct; simp)
  show ?thesis
    using assms excl
    by (simp add: interpretSignal_def Let_def formatted_Some result_def)
qed

text \<open>
  Price falling 1 percent and OI rising 1 percent on a buy-dominant window, default
  thresholds: \<open>SHORT\<close>, \<open>CONTINUATION\<close>, and the base direction \<open>LONG\<close> is overridden.
\<close>

theorem interpretSignal_quadrant_table_witness:
  "\<exists>r. interpretSignal CONFIG True (exampleStats Buy) (Some (exampleSnapshot 1 (- 1))) = Inr r
     \<and> oiUsed r \<and> flowDirection r = LONG \<and> finalDirection r = SHORT
     \<and> decision r = CONTINUATION \<and> oiOverride r"
  using interpretSignal_quadrant_table
    [of CONFIG "exampleSnapshot 1 (- 1)" "Num 1" "Num (- 1)" "exampleStats Buy"]
  by (auto simp add: CONFIG_fields exampleSnapshot_fields exampleStats_side)

text \<open>
  Claim C2 as the specification states it fails: with no snapshot the decision is
  \<open>NO_OI_DATA\<close>, not \<open>BASE\<close>.
\<close>

theorem interpretSignal_no_snapshot_counterexample:
  "interpretSignal CONFIG True (exampleStats Buy) None =
     Inr (result CONFIG (exampleStats Buy) LONG False None NO_OI_DATA False False False)
 \<and> decision (result CONFIG (exampleStats Buy) LONG False None NO_OI_DATA False False False)
     \<noteq> BASE"
  by (simp add: interpretSignal_def exampleStats_side result_def)

text \<open>
  Claim C2, as amended. When OI is disabled, the engine has no tracker, the snapshot is
  absent or its \<open>hasWindowData\<close> is false, \<open>interpretSignal\<close> returns the base
  direction unchanged (\<open>LONG\<close> for buy dominance, \<open>SHORT\<close> for sell dominance) with
  decision \<open>NO_OI_DATA\<close>, \<open>oiUsed\<close> false, no override and both threshold flags false.
\<close>

theorem interpretSignal_no_oi_data:
  assumes "\<not> OI_ENABLED cfg \<or> \<not> oiTracker \<or> oiStats = None
         \<or> (\<exists>os. oiStats = Some os \<and> \<not> hasWindowData os)"
  shows "\<exists>r. interpretSignal cfg oiTracker stats oiStats = Inr r
     \<and> finalDirection r = (if dominantSide stats = Buy then LONG else SHORT)
     \<and> direction r = finalDirection r \<and> flowDirection r = finalDirection r
     \<and> decision r = NO_OI_DATA \<and> \<not> oiUsed r \<and> \<not> oiOverride r
     \<and> \<not> oiDeltaPassed r \<and> \<not> oiPricePassed r \<and> oiReason r = None"
  using assms
  by (auto simp add: interpretSignal_def Let_def result_def split: option.splits)

lemma binanceToOKX_ADA: "binanceToOKX ''ADAUSDT'' = ''ADA-USDT-SWAP''"
  by (simp add: binanceToOKX_def)

lemma exampleTracker_early:
  "getOIStats exampleTracker 299999 ''ADAUSDT'' =
     Some \<lparr> oiNow = 110, oi5mAgo = None, oiDeltaPct = None, oiDelta = None,
            priceNow = 10.5, price5mAgo = None, priceDeltaPct = None,
            hasWindowData = False, historyCount = 2 \<rparr>"
  by (simp add: getOIStats_def exampleTracker_def Tracker_new_def binanceToOKX_ADA Let_def)

text \<open>
  A sell-dominant window and the snapshot the example tracker gives one millisecond
  before its older point is a full window old: no window data, so \<open>SHORT\<close> with
  \<open>NO_OI_DATA\<close>.
\<close>

theorem interpretSignal_no_oi_data_witness:
  "\<exists>r. interpretSignal CONFIG True (exampleStats Sell)
          (getOIStats exampleTracker 299999 ''ADAUSDT'') = Inr r
     \<and> finalDirection r = SHORT \<and> decision r = NO_OI_DATA \<and> \<not> oiUsed r"
  using interpretSignal_no_oi_data
    [of CONFIG True "getOIStats exampleTracker 299999 ''ADAUSDT''" "exampleStats Sell"]
  by (auto simp add: exampleTracker_early exampleStats_side)

text \<open>
  Claim C3. With OI enabled, a tracker present and a snapshot with window data,
  \<open>interpretSignal\<close> uses the OI quadrant logic (\<open>oiUsed\<close> true, decision
  \<open>CONTINUATION\<close>, \<open>BOUNCE\<close> or \<open>INCONCLUSIVE\<close>) exactly when
  \<open>|oiDeltaPct| \<ge> OI_MIN_DELTA_PERCENT\<close> and
  \<open>|priceDeltaPct| \<ge> OI_MIN_PRICE_CHANGE_PERCENT\<close>. Otherwise it returns the base
  direction with decision \<open>BASE\<close>, \<open>oiUsed\<close> false and no override;
  \<open>oiDeltaPassed\<close> and \<open>oiPricePassed\<close> say which threshold was met, and the reason
  lists the thresholds that failed.
\<close>

theorem interpretSignal_threshold_gate:
  assumes "OI_ENABLED cfg" and "hasWindowData os"
    and "oiDeltaPct os = Some oiPct" and "priceDeltaPct os = Some pricePct"
  shows "\<exists>r. interpretSignal cfg True stats (Some os) = Inr r
     \<and> (oiUsed r \<longleftrightarrow> js_ge (Math_abs oiPct) (OI_MIN_DELTA_PERCENT cfg)
                      \<and> js_ge (Math_abs pricePct) (OI_MIN_PRICE_CHANGE_PERCENT cfg))
     \<and> (oiDeltaPassed r \<longleftrightarrow> js_ge (Math_abs oiPct) (OI_MIN_DELTA_PERCENT cfg))
     \<and> (oiPricePassed r \<longleftrightarrow> js_ge (Math_abs pricePct) (OI_MIN_PRICE_CHANGE_PERCENT cfg))
     \<and> (oiUsed r \<longleftrightarrow> decision r \<in> {CONTINUATION, BOUNCE, INCONCLUSIVE})
     \<and> (\<not> oiUsed r \<longrightarrow>
            finalDirection r = (if dominantSide stats = Buy then LONG else SHORT)
          \<and> decision r = BASE \<and> \<not> oiOverride r
          \<and> oiReason r = Some (OIIgnored
               ((if oiDeltaPassed r then [] else [OIDeltaBelowMin])
                @ (if oiPricePassed r then [] else [PriceDeltaBelowMin]))))"
  using assms
  by (simp add: interpretSignal_def Let_def formatted_Some result_def)

text \<open>
  An OI delta of 0.5 percent with a price delta of 1 percent under the default thresholds
  0.6 and 0.35: the OI threshold fails, the price threshold passes, and the decision is
  \<open>BASE\<close>.
\<close>

theorem interpretSignal_threshold_gate_witness:
  "\<exists>r. interpretSignal CONFIG True (exampleStats Buy) (Some (exampleSnapshot 0.5 1)) = Inr r
     \<and> \<not> oiUsed r \<and> decision r = BASE \<and> finalDirection r = LONG
     \<and> \<not> oiDeltaPassed r \<and> oiPricePassed r
     \<and> oiReason r = Some (OIIgnored [OIDeltaBelowMin])"
  using interpretSignal_threshold_gate
    [of CONFIG "exampleSnapshot 0.5 1" "Num 0.5" "Num 1" "exampleStats Buy"]
  by (auto simp add: CONFIG_fields exampleSnapshot_fields exampleStats_side)

lemma default_oi_gate_significant:
  "js_ge (Math_abs x) 0.6 \<Longrightarrow> js_gt x 0.5 \<or> js_lt x (- 0.5)"
  by (cases x) auto

lemma default_price_gate_significant:
  "js_ge (Math_abs x) 0.35 \<Longrightarrow> js_gt x 0.1 \<or> js_lt x (- 0.1)"
  by (cases x) auto

lemma default_gate_not_null:
  "js_ge (Math_abs (toNumber x)) 0.6 \<Longrightarrow> x \<noteq> None"
  "js_ge (Math_abs (toNumber x)) 0.35 \<Longrightarrow> x \<noteq> None"
  by (cases x; simp)+

text \<open>
  Claim C10. Under the default thresholds \<open>0.6\<close> and \<open>0.35\<close>, \<open>interpretSignal\<close>
  always returns, never with decision \<open>INCONCLUSIVE\<close>; whenever the gate passes
  (\<open>oiUsed\<close> true) the decision is \<open>CONTINUATION\<close> or \<open>BOUNCE\<close>. A delta of
  absolute value at least \<open>0.6\<close> is above \<open>0.5\<close> or below \<open>-0.5\<close>, and one of
  absolute value at least \<open>0.35\<close> is above \<open>0.1\<close> or below \<open>-0.1\<close>.
\<close>

theorem interpretSignal_default_never_inconclusive:
  "\<exists>r. interpretSignal CONFIG oiTracker stats oiStats = Inr r
     \<and> decision r \<noteq> INCONCLUSIVE
     \<and> (oiUsed r \<longrightarrow> decision r = CONTINUATION \<or> decision r = BOUNCE)"
proof (cases "oiTracker \<and> (\<exists>os. oiStats = Some os \<and> hasWindowData os)")
  case False
  then show ?thesis
    by (cases oiStats) (auto simp add: interpretSignal_def Let_def result_def)
next
  case True
  then obtain os where os: "oiStats = Some os" "hasWindowData os" and tr: oiTracker
    by blast
  show ?thesis
  proof (cases "js_ge (Math_abs (toNumber (oiDeltaPct os))) 0.6
              \<and> js_ge (Math_abs (toNumber (priceDeltaPct os))) 0.35")
    case False
    then show ?thesis using os tr
      by (auto simp add: interpretSignal_def Let_def result_def CONFIG_fields)
  next
    case gate: True
    then obtain a b where ab: "oiDeltaPct os = Some a" "priceDeltaPct os = Some b"
      using default_gate_not_null by blast
    have sig: "js_gt a 0.5 \<or> js_lt a (- 0.5)" "js_gt b 0.1 \<or> js_lt b (- 0.1)"
      using gate ab default_oi_gate_significant default_price_gate_significant by simp_all
    show ?thesis using os tr gate ab sig
      by (auto simp add: interpretSignal_def Let_def result_def formatted_Some CONFIG_fields)
  qed
qed

text \<open>
  OI up 0.8 percent and price up 0.5 percent on a buy-dominant window: the gate passes
  and the decision is \<open>CONTINUATION\<close> in direction \<open>LONG\<close>, with no override.
\<close>

theorem interpretSignal_default_never_inconclusive_witness:
  "\<exists>r. interpretSignal CONFIG True (exampleStats Buy) (Some (exampleSnapshot 0.8 0.5)) = Inr r
     \<and> oiUsed r \<and> decision r = CONTINUATION \<and> finalDirection r = LONG \<and> \<not> oiOverride r"
proof -
  obtain r where r: "interpretSignal CONFIG True (exampleStats Buy) (Some (exampleSnapshot 0.8 0.5)) = Inr r"
      "decision r \<noteq> INCONCLUSIVE"
      "oiUsed r \<longrightarrow> decision r = CONTINUATION \<or> decision r = BOUNCE"
    using interpretSignal_default_never_inconclusive
      [of True "exampleStats Buy" "Some (exampleSnapshot 0.8 0.5)"] by blast
  have e: "interpretSignal CONFIG True (exampleStats Buy) (Some (exampleSnapshot 0.8 0.5)) =
     Inr (result CONFIG (exampleStats Buy) LONG False (Some BreakoutUp) CONTINUATION
            True True True)"
    by (simp add: interpretSignal_def Let_def formatted_Some CONFIG_fields
        exampleSnapshot_fields exampleStats_side)
  from r(1) e have "r = result CONFIG (exampleStats Buy) LONG False (Some BreakoutUp)
      CONTINUATION True True True" by simp
  then show ?thesis using r by (simp add: result_def)
qed

section \<open>The open-interest snapshot\<close>

lemma scanBack_rev:
  "scanBack w (rev h) =
     (if filter (\<lambda>p. pt_ts p \<le> w) h = [] then None
      else Some (last (filter (\<lambda>p. pt_ts p \<le> w) h)))"
  by (induction h rule: rev_induct) simp_all

text \<open>A snapshot of \<open>getOIStats\<close> with window data carries both percentage deltas.\<close>

lemma getOIStats_window_deltas:
  assumes "getOIStats tr now nm = Some st" and "hasWindowData st"
  shows "oiDeltaPct st \<noteq> None \<and> priceDeltaPct st \<noteq> None"
  using assms
  by (auto simp add: getOIStats_def Let_def split: option.splits if_splits)

text \<open>
  Claim C6. \<open>getOIStats\<close> returns \<open>null\<close> when the instrument has no cache entry or
  its history is empty. Otherwise it returns a snapshot whose \<open>oiNow\<close> and \<open>priceNow\<close>
  are those of the latest history point. The past point is the newest point of the
  history with timestamp at or before \<open>now - windowMs\<close> (\<open>now\<close> the clock reading of
  the query): when there is none, \<open>hasWindowData\<close> is false and the past values and
  deltas are \<open>null\<close>; when there is one, \<open>hasWindowData\<close> is true and the deltas are
  \<open>(now - past) / past * 100\<close> of OI and of price (a finite number when the past value
  is not zero).
\<close>

theorem getOIStats_snapshot:
  "(oiCache tr (binanceToOKX nm) = None \<longrightarrow> getOIStats tr now nm = None)
 \<and> (\<forall>cache. oiCache tr (binanceToOKX nm) = Some cache \<longrightarrow>
      (history cache = [] \<longrightarrow> getOIStats tr now nm = None)
    \<and> (history cache \<noteq> [] \<longrightarrow>
         (\<exists>st. getOIStats tr now nm = Some st
            \<and> oiNow st = pt_oi (last (history cache))
            \<and> priceNow st = pt_price (last (history cache))
            \<and> historyCount st = length (history cache)
            \<and> (filter (\<lambda>p. pt_ts p \<le> now - trWindowMs tr) (history cache) = [] \<longrightarrow>
                  \<not> hasWindowData st \<and> oi5mAgo st = None \<and> price5mAgo st = None
                \<and> oiDelta st = None \<and> oiDeltaPct st = None \<and> priceDeltaPct st = None)
            \<and> (\<forall>past. filter (\<lambda>p. pt_ts p \<le> now - trWindowMs tr) (history cache) \<noteq> []
                     \<and> past = last (filter (\<lambda>p. pt_ts p \<le> now - trWindowMs tr) (history cache))
                  \<longrightarrow>
                  hasWindowData st
                \<and> oi5mAgo st = Some (pt_oi past) \<and> price5mAgo st = Some (pt_price past)
                \<and> oiDelta st = Some (oiNow st - pt_oi past)
                \<and> oiDeltaPct st = Some (js_times (js_div (oiNow st - pt_oi past) (pt_oi past)) 100)
                \<and> priceDeltaPct st =
                     Some (js_times (js_div (priceNow st - pt_price past) (pt_price past)) 100)
                \<and> (pt_oi past \<noteq> 0 \<longrightarrow>
                     oiDeltaPct st = Some (Num ((oiNow st - pt_oi past) / pt_oi past * 100)))
                \<and> (pt_price past \<noteq> 0 \<longrightarrow>
                     priceDeltaPct st =
                       Some (Num ((priceNow st - pt_price past) / pt_price past * 100)))))))"
  by (simp add: getOIStats_def scanBack_rev Let_def js_div_def)

lemma exampleTracker_cache:
  "oiCache exampleTracker (binanceToOKX ''ADAUSDT'') =
     Some \<lparr> cacheLastOI = Some 110, cacheLastPrice = Some 10.5,
            history = [\<lparr> pt_ts = 0, pt_oi = 100, pt_price = 10 \<rparr>,
                       \<lparr> pt_ts = 300000, pt_oi = 110, pt_price = 10.5 \<rparr>] \<rparr>"
  and exampleTracker_window: "trWindowMs exampleTracker = 300000"
  by (simp_all add: exampleTracker_def Tracker_new_def binanceToOKX_ADA)

text \<open>
  History points \<open>(t = 0, oi = 100, price = 10)\<close> and
  \<open>(t = 300 s, oi = 110, price = 10.5)\<close>, queried at \<open>t = 300 s\<close> with a 300 s window:
  the OI delta is 10 percent and the price delta 5 percent.
\<close>

theorem getOIStats_snapshot_witness:
  "\<exists>st. getOIStats exampleTracker 300000 ''ADAUSDT'' = Some st
      \<and> hasWindowData st \<and> oiNow st = 110 \<and> oi5mAgo st = Some 100
      \<and> priceNow st = 10.5 \<and> price5mAgo st = Some 10
      \<and> oiDeltaPct st = Some (Num 10) \<and> priceDeltaPct st = Some (Num 5)"
  using getOIStats_snapshot [of exampleTracker "''ADAUSDT''" 300000]
  by (auto simp add: exampleTracker_cache exampleTracker_window js_div_def)

text \<open>
  The cutoff of the lookup is taken from the clock of the query, not from the timestamp
  of the latest point: with points at \<open>t = 0\<close> and \<open>t = 250 s\<close> and a 300 s window, a
  query at \<open>t = 300 s\<close> finds the point of \<open>t = 0\<close>.
\<close>

lemma getOIStats_cutoff_from_clock:
  "map_option hasWindowData
     (getOIStats
        (exampleTracker \<lparr> oiCache := [''ADA-USDT-SWAP'' \<mapsto>
            \<lparr> cacheLastOI = Some 110, cacheLastPrice = Some 10.5,
              history = [\<lparr> pt_ts = 0, pt_oi = 100, pt_price = 10 \<rparr>,
                         \<lparr> pt_ts = 250000, pt_oi = 110, pt_price = 10.5 \<rparr>] \<rparr>] \<rparr>)
        300000 ''ADAUSDT'') = Some True"
  by (simp add: getOIStats_def exampleTracker_def Tracker_new_def binanceToOKX_ADA Let_def)

section \<open>The cooldown gate\<close>

lemma alertKey_inject: "alertKey n1 s1 = alertKey n2 s2 \<longleftrightarrow> n1 = n2 \<and> s1 = s2"
proof
  assume eq: "alertKey n1 s1 = alertKey n2 s2"
  have "rev (alertKey n1 s1) = rev (alertKey n2 s2)" using eq by simp
  then have r: "rev (sideName s1) @ ''_'' @ rev n1 = rev (sideName s2) @ ''_'' @ rev n2"
    by (simp add: alertKey_def)
  then have s: "s1 = s2" by (cases s1; cases s2; simp add: sideName_def)
  with r have "rev n1 = rev n2" by simp
  with s show "n1 = n2 \<and> s1 = s2" by simp
qed simp

text \<open>
  Claim C7. For a configured instrument and a side whose recorded time, if any, is a
  clock reading other than \<open>0\<close>: \<open>canAlert\<close> is true exactly when no alert is recorded
  for the key of that instrument and side, or the time elapsed since the recorded one is
  at least the instrument's cooldown (\<open>cooldownMinutes * 60 * 1000\<close> ms). After
  \<open>recordAlert\<close> at time \<open>t0\<close> for an instrument and side, \<open>canAlert\<close> for that pair
  is true exactly when the cooldown has elapsed since \<open>t0\<close>, and \<open>canAlert\<close> for every
  other instrument or side is what it was before.
\<close>

theorem canAlert_cooldown:
  assumes "getSymbolConfig cfg nm = Some config"
    and "lastAlerts cm (alertKey nm (dominantSide stats)) \<noteq> Some 0"
    and "t0 \<noteq> 0"
  shows "(canAlert cfg cm now nm stats \<longleftrightarrow>
            lastAlerts cm (alertKey nm (dominantSide stats)) = None
          \<or> (\<exists>lastTime. lastAlerts cm (alertKey nm (dominantSide stats)) = Some lastTime
                \<and> cooldownMinutes config * 60 * 1000 \<le> now - lastTime))
       \<and> (canAlert cfg (recordAlert cm t0 nm stats) now nm stats \<longleftrightarrow>
            cooldownMinutes config * 60 * 1000 \<le> now - t0)
       \<and> (\<forall>nm' stats'. (nm', dominantSide stats') \<noteq> (nm, dominantSide stats) \<longrightarrow>
            canAlert cfg (recordAlert cm t0 nm stats) now nm' stats'
              = canAlert cfg cm now nm' stats')"
  using assms
  by (auto simp add: canAlert_def recordAlert_def alertKey_inject Let_def split: option.splits)

lemma CONFIG_ADA: "getSymbolConfig CONFIG ''ADAUSDT'' = Some (symbolConfig 1000000 65 0.6)"
  by (simp add: getSymbolConfig_def CONFIG_def)

text \<open>
  ADAUSDT has a cooldown of 5 minutes. After an alert for its buy side at
  \<open>t = 1000000\<close>, the buy side is blocked 299999 ms later and free 300000 ms later; the
  sell side is free throughout.
\<close>

theorem canAlert_cooldown_witness:
  "canAlert CONFIG CooldownManager_new 1299999 ''ADAUSDT'' (exampleStats Buy)
 \<and> \<not> canAlert CONFIG (recordAlert CooldownManager_new 1000000 ''ADAUSDT'' (exampleStats Buy))
        1299999 ''ADAUSDT'' (exampleStats Buy)
 \<and> canAlert CONFIG (recordAlert CooldownManager_new 1000000 ''ADAUSDT'' (exampleStats Buy))
      1300000 ''ADAUSDT'' (exampleStats Buy)
 \<and> canAlert CONFIG (recordAlert CooldownManager_new 1000000 ''ADAUSDT'' (exampleStats Buy))
      1299999 ''ADAUSDT'' (exampleStats Sell)"
proof -
  have c: "lastAlerts CooldownManager_new (alertKey ''ADAUSDT'' (dominantSide (exampleStats Buy)))
      \<noteq> Some 0"
    by (simp add: CooldownManager_new_def)
  have t: "(1000000::real) \<noteq> 0" by simp
  note T = canAlert_cooldown [OF CONFIG_ADA c t]
  have 1: "canAlert CONFIG CooldownManager_new 1299999 ''ADAUSDT'' (exampleStats Buy)"
    using T [of 1299999] by (simp add: CooldownManager_new_def)
  have 2: "\<not> canAlert CONFIG (recordAlert CooldownManager_new 1000000 ''ADAUSDT'' (exampleStats Buy))
        1299999 ''ADAUSDT'' (exampleStats Buy)"
    using T [of 1299999] by (simp add: symbolConfig_def)
  have 3: "canAlert CONFIG (recordAlert CooldownManager_new 1000000 ''ADAUSDT'' (exampleStats Buy))
        1300000 ''ADAUSDT'' (exampleStats Buy)"
    using T [of 1300000] by (simp add: symbolConfig_def)
  have "canAlert CONFIG (recordAlert CooldownManager_new 1000000 ''ADAUSDT'' (exampleStats Buy))
        1299999 ''ADAUSDT'' (exampleStats Sell)
      = canAlert CONFIG CooldownManager_new 1299999 ''ADAUSDT'' (exampleStats Sell)"
    using T [of 1299999] by (simp add: exampleStats_side)
  also have "\<dots>"
    by (simp add: canAlert_def CONFIG_ADA CooldownManager_new_def)
  finally have 4: "canAlert CONFIG (recordAlert CooldownManager_new 1000000 ''ADAUSDT'' (exampleStats Buy))
        1299999 ''ADAUSDT'' (exampleStats Sell)" .
  from 1 2 3 4 show ?thesis by blast
qed

section \<open>The alert scheduler\<close>

lemma mapSet_absent: "\<not> mapHas m k \<Longrightarrow> mapSet m k v = m @ [(k, v)]"
  by (induction m) (auto simp: mapHas_def)

lemma mapHas_keys: "mapHas m k \<longleftrightarrow> k \<in> set (map fst m)"
  by (simp add: mapHas_def map_of_eq_None_iff)

lemma pendingAlerts_scheduleFinalOICheck:
  "pendingAlerts (scheduleFinalOICheck cfg am seconds key alertData) = pendingAlerts am"
  by (simp add: scheduleFinalOICheck_def Let_def split: option.splits)

lemma pendingAlerts_sendAlert:
  "pendingAlerts (sendAlert cfg am now seconds nm stats i oiS) =
     (if mapHas (pendingAlerts am) (alertKey nm (dominantSide stats)) then pendingAlerts am
      else pendingAlerts am @ [(alertKey nm (dominantSide stats),
             \<lparr> adSymbol = nm, adStats = stats, adInterpretation = i, adOiStats = oiS,
               adTimestamp = now \<rparr>)])"
  by (simp add: sendAlert_def Let_def mapSet_absent pendingAlerts_scheduleFinalOICheck)

lemma alertCount_sendAlert: "alertCount (sendAlert cfg am now seconds nm stats i oiS) = alertCount am"
  by (simp add: sendAlert_def scheduleFinalOICheck_def Let_def split: option.splits)

lemma sendAlert_pending:
  "mapHas (pendingAlerts am) (alertKey nm (dominantSide stats))
     \<Longrightarrow> sendAlert cfg am now seconds nm stats i oiS = am"
  by (simp add: sendAlert_def Let_def)

lemma mapHas_sendAlert:
  "mapHas (pendingAlerts (sendAlert cfg am now seconds nm stats i oiS))
     (alertKey nm (dominantSide stats))"
  by (simp add: pendingAlerts_sendAlert) (simp add: mapHas_def)

lemma distinct_sendAlert:
  "distinct (map fst (pendingAlerts am))
     \<Longrightarrow> distinct (map fst (pendingAlerts (sendAlert cfg am now seconds nm stats i oiS)))"
  by (simp add: pendingAlerts_sendAlert mapHas_keys)

lemma count_key_distinct:
  "distinct (map fst m) \<Longrightarrow> k \<in> set (map fst m)
     \<Longrightarrow> length (filter (\<lambda>e. fst e = k) m) = 1"
proof (induction m)
  case Nil
  then show ?case by simp
next
  case (Cons e m)
  show ?case
  proof (cases "fst e = k")
    case True
    then have "k \<notin> fst ` set m" using Cons.prems(1) by auto
    then have "filter (\<lambda>e. fst e = k) m = []" by (auto simp: filter_empty_conv)
    with True show ?thesis by simp
  next
    case False
    then show ?thesis using Cons by auto
  qed
qed

lemma flush_empty: "pendingAlerts am = [] \<Longrightarrow> flushPendingAlerts telegram am = (am, [])"
  by (simp add: flushPendingAlerts_def)

lemma flush_idle_repeat:
  "pendingAlerts am = [] \<Longrightarrow> ((\<lambda>a. fst (flushPendingAlerts telegram a)) ^^ n) am = am"
  by (induction n) (simp_all add: flush_empty)

lemma flushLoop_out:
  "attempted (snd (flushLoop telegram es st)) = es
 \<and> delivered (snd (flushLoop telegram es st)) = filter telegram (map snd es)
 \<and> fst (fst (flushLoop telegram es st)) = fst st + length (filter telegram (map snd es))"
  by (induction telegram es st rule: flushLoop.induct) (simp_all add: split_beta Let_def)

lemma performFinalOICheck_not_pending:
  "\<not> mapHas (pendingAlerts am) key
     \<Longrightarrow> performFinalOICheck cfg am tracker now key alertData = Inr am"
  by (simp add: performFinalOICheck_def)

text \<open>The pending keys stay distinct under every operation of the manager.\<close>

lemma keys_mapSet:
  "map fst (mapSet m k v) = (if mapHas m k then map fst m else map fst m @ [k])"
  by (induction m) (auto simp: mapHas_def)

lemma distinct_performFinalOICheck:
  assumes "distinct (map fst (pendingAlerts am))"
    and "performFinalOICheck cfg am tracker now key alertData = Inr am'"
  shows "map fst (pendingAlerts am') = map fst (pendingAlerts am)"
    and "distinct (map fst (pendingAlerts am'))"
proof -
  show k: "map fst (pendingAlerts am') = map fst (pendingAlerts am)"
    using assms(2)
    by (auto simp add: performFinalOICheck_def Let_def keys_mapSet
        split: if_splits option.splits sum.splits)
  show "distinct (map fst (pendingAlerts am'))" unfolding k by (rule assms(1))
qed

lemma keys_new_and_flushed:
  "distinct (map fst (pendingAlerts AlertManager_new))"
  "distinct (map fst (pendingAlerts (fst (flushPendingAlerts telegram am))))"
  by (simp_all add: AlertManager_new_def flushPendingAlerts_def split_beta Let_def)

text \<open>
  Claim C8. In a manager whose pending keys are distinct, a second \<open>sendAlert\<close> for an
  instrument and side that already has a pending candidate changes nothing: exactly one
  candidate is stored for the key, and it is the earlier one (the one already pending
  before the first call, else the one of the first call). A flush of a manager with no
  pending alert returns the manager unchanged and reports no send, however often it is
  repeated.
\<close>

theorem sendAlert_twice_keeps_first:
  assumes "distinct (map fst (pendingAlerts am))"
    and "dominantSide stats2 = dominantSide stats1"
    and "pendingAlerts idle = []"
  shows "sendAlert cfg (sendAlert cfg am t1 sec1 nm stats1 i1 o1) t2 sec2 nm stats2 i2 o2
           = sendAlert cfg am t1 sec1 nm stats1 i1 o1
       \<and> length (filter (\<lambda>e. fst e = alertKey nm (dominantSide stats1))
                   (pendingAlerts
                      (sendAlert cfg (sendAlert cfg am t1 sec1 nm stats1 i1 o1)
                         t2 sec2 nm stats2 i2 o2))) = 1
       \<and> map_of (pendingAlerts
                    (sendAlert cfg (sendAlert cfg am t1 sec1 nm stats1 i1 o1)
                       t2 sec2 nm stats2 i2 o2))
            (alertKey nm (dominantSide stats1))
           = (if mapHas (pendingAlerts am) (alertKey nm (dominantSide stats1))
              then map_of (pendingAlerts am) (alertKey nm (dominantSide stats1))
              else Some \<lparr> adSymbol = nm, adStats = stats1, adInterpretation = i1,
                          adOiStats = o1, adTimestamp = t1 \<rparr>)
       \<and> flushPendingAlerts telegram idle = (idle, [])
       \<and> ((\<lambda>a. fst (flushPendingAlerts telegram a)) ^^ n) idle = idle"
proof -
  let ?key = "alertKey nm (dominantSide stats1)"
  let ?am1 = "sendAlert cfg am t1 sec1 nm stats1 i1 o1"
  let ?am2 = "sendAlert cfg ?am1 t2 sec2 nm stats2 i2 o2"
  have has1: "mapHas (pendingAlerts ?am1) ?key" by (rule mapHas_sendAlert)
  then have same: "?am2 = ?am1" using assms(2) by (simp add: sendAlert_pending)
  have "distinct (map fst (pendingAlerts ?am1))" using assms(1) by (rule distinct_sendAlert)
  then have one: "length (filter (\<lambda>e. fst e = ?key) (pendingAlerts ?am1)) = 1"
    using has1 by (intro count_key_distinct) (simp_all add: mapHas_keys)
  have first: "map_of (pendingAlerts ?am1) ?key
           = (if mapHas (pendingAlerts am) ?key then map_of (pendingAlerts am) ?key
              else Some \<lparr> adSymbol = nm, adStats = stats1, adInterpretation = i1,
                          adOiStats = o1, adTimestamp = t1 \<rparr>)"
    by (simp add: pendingAlerts_sendAlert) (simp add: mapHas_def map_add_def)
  show ?thesis
    unfolding same using one first flush_empty[OF assms(3)] flush_idle_repeat[OF assms(3)]
    by simp
qed

lemma exampleAlert_record:
  "\<lparr> adSymbol = nm, adStats = exampleStats sd,
     adInterpretation = adInterpretation (exampleAlert nm sd now),
     adOiStats = None, adTimestamp = now \<rparr> = exampleAlert nm sd now"
  by (simp add: exampleAlert_def)

lemma alertKey_ADA:
  "alertKey ''ADAUSDT'' Buy = ''ADAUSDT_buy''" "alertKey ''ADAUSDT'' Sell = ''ADAUSDT_sell''"
  by (simp_all add: alertKey_def sideName_def)

text \<open>
  Two candidates for the buy side of ADAUSDT, at \<open>t = 1000\<close> and at \<open>t = 2000\<close>, sent
  to a new manager: the one of \<open>t = 1000\<close> is the only pending alert. Flushing the new
  manager reports nothing.
\<close>

theorem sendAlert_twice_keeps_first_witness:
  "pendingAlerts
     (sendAlert CONFIG
        (sendAlert CONFIG AlertManager_new 1000 10 ''ADAUSDT'' (exampleStats Buy)
           (adInterpretation (exampleAlert ''ADAUSDT'' Buy 1000)) None)
        2000 11 ''ADAUSDT'' (exampleStats Buy)
        (adInterpretation (exampleAlert ''ADAUSDT'' Buy 2000)) None)
     = [(''ADAUSDT_buy'', exampleAlert ''ADAUSDT'' Buy 1000)]
 \<and> flushPendingAlerts (\<lambda>a. True) AlertManager_new = (AlertManager_new, [])"
proof -
  have d: "distinct (map fst (pendingAlerts AlertManager_new))"
    and e: "pendingAlerts AlertManager_new = []"
    by (simp_all add: AlertManager_new_def)
  note T = sendAlert_twice_keeps_first [OF d refl e,
      of CONFIG 1000 10 "''ADAUSDT''" "exampleStats Buy"
         "adInterpretation (exampleAlert ''ADAUSDT'' Buy 1000)" None
         2000 11 "adInterpretation (exampleAlert ''ADAUSDT'' Buy 2000)" None "\<lambda>a. True" 1]
  have one: "pendingAlerts (sendAlert CONFIG AlertManager_new 1000 10 ''ADAUSDT'' (exampleStats Buy)
           (adInterpretation (exampleAlert ''ADAUSDT'' Buy 1000)) None)
     = [(''ADAUSDT_buy'', exampleAlert ''ADAUSDT'' Buy 1000)]"
    by (simp add: pendingAlerts_sendAlert e mapHas_def exampleStats_side alertKey_ADA
        exampleAlert_record)
  from T one show ?thesis by simp
qed

text \<open>
  Claim C9. A flush tries every pending alert once, in order, whatever the outcome of the
  sends before it; it delivers exactly those whose send succeeds and counts them. After
  the flush the pending set is empty, so a failed alert is not kept: a final-check timer
  firing later changes nothing, and the next flush reports no send.
\<close>

theorem flushPendingAlerts_no_retry:
  "(case flushPendingAlerts telegram am of
      (am', out) \<Rightarrow>
        pendingAlerts am' = []
      \<and> attempted out = pendingAlerts am
      \<and> delivered out = filter telegram (map snd (pendingAlerts am))
      \<and> alertCount am' = alertCount am + length (delivered out)
      \<and> performFinalOICheck cfg am' tracker now key alertData = Inr am'
      \<and> flushPendingAlerts telegram' am' = (am', []))"
proof -
  obtain am' out where f: "flushPendingAlerts telegram am = (am', out)" by force
  have p: "pendingAlerts am' = []" using f
    by (auto simp add: flushPendingAlerts_def split_beta Let_def)
  have o: "out = snd (flushLoop telegram (pendingAlerts am) (alertCount am, finalCheckTimers am))"
    and c: "alertCount am' =
      fst (fst (flushLoop telegram (pendingAlerts am) (alertCount am, finalCheckTimers am)))"
    using f by (auto simp add: flushPendingAlerts_def split_beta Let_def)
  note L = flushLoop_out[of telegram "pendingAlerts am" "(alertCount am, finalCheckTimers am)"]
  have "\<not> mapHas (pendingAlerts am') key" using p by (simp add: mapHas_def)
  then have t: "performFinalOICheck cfg am' tracker now key alertData = Inr am'"
    by (rule performFinalOICheck_not_pending)
  show ?thesis unfolding f using p o c L t flush_empty[OF p] by simp
qed

lemma examplePending_alerts:
  "pendingAlerts examplePending =
     [(''ADAUSDT_buy'', exampleAlert ''ADAUSDT'' Buy 1000),
      (''ADAUSDT_sell'', exampleAlert ''ADAUSDT'' Sell 2000)]"
  and examplePending_count: "alertCount examplePending = 0"
  by (simp_all add: examplePending_def pendingAlerts_sendAlert alertCount_sendAlert
      AlertManager_new_def mapHas_def exampleStats_side alertKey_ADA exampleAlert_record)

text \<open>
  The buy alert and the sell alert of ADAUSDT are pending and only sends of sell alerts
  succeed: both are tried, the sell alert is delivered after the buy alert failed, and
  nothing stays pending.
\<close>

theorem flushPendingAlerts_no_retry_witness:
  "pendingAlerts (fst (flushPendingAlerts (\<lambda>a. dominantSide (adStats a) = Sell) examplePending)) = []
 \<and> attempted (snd (flushPendingAlerts (\<lambda>a. dominantSide (adStats a) = Sell) examplePending))
     = [(''ADAUSDT_buy'', exampleAlert ''ADAUSDT'' Buy 1000),
        (''ADAUSDT_sell'', exampleAlert ''ADAUSDT'' Sell 2000)]
 \<and> delivered (snd (flushPendingAlerts (\<lambda>a. dominantSide (adStats a) = Sell) examplePending))
     = [exampleAlert ''ADAUSDT'' Sell 2000]
 \<and> alertCount (fst (flushPendingAlerts (\<lambda>a. dominantSide (adStats a) = Sell) examplePending)) = 1"
proof -
  have s: "adStats (exampleAlert nm sd t) = exampleStats sd" for nm sd t
    by (simp add: exampleAlert_def)
  show ?thesis
    using flushPendingAlerts_no_retry
      [where telegram = "\<lambda>a. dominantSide (adStats a) = Sell" and am = examplePending
         and cfg = CONFIG and tracker = None and now = 0 and key = "''ADAUSDT_buy''"
         and alertData = "exampleAlert ''ADAUSDT'' Buy 1000" and telegram' = "\<lambda>a. True"]
    by (simp add: split_beta examplePending_alerts examplePending_count s exampleStats_side)
qed

end
